theory Spec2Isabelle
  imports Complex_Main "HOL-Library.Char_ord" "HOL-Library.List_Lexorder"
begin

section \<open>JavaScript strings\<close>

text \<open>
  A JavaScript string is modelled as a \<^typ>\<open>string\<close>, a list of bytes (UTF-8 for a
  character outside ASCII). \<open>toLowerCase\<close> and \<open>trim\<close> are modelled on the ASCII
  range: a byte outside \<open>A..Z\<close> is left as it is, and white space is the six ASCII
  white-space characters.
\<close>

definition lowerChar :: "char \<Rightarrow> char" where
  "lowerChar c =
     (let n = (of_char c :: nat)
      in if 65 \<le> n \<and> n \<le> 90 then char_of (n + 32) else c)"

definition toLowerCase :: "string \<Rightarrow> string" where
  "toLowerCase s = map lowerChar s"



text \<open>\<open>String.prototype.startsWith\<close> and \<open>String.prototype.includes\<close>.\<close>

fun startsWith :: "string \<Rightarrow> string \<Rightarrow> bool" where
  "startsWith s [] = True"
| "startsWith [] (k # ks) = False"
| "startsWith (c # cs) (k # ks) = (c = k \<and> startsWith cs ks)"

fun includes_js :: "string \<Rightarrow> string \<Rightarrow> bool" where
  "includes_js [] k = startsWith [] k"
| "includes_js (c # cs) k = (startsWith (c # cs) k \<or> includes_js cs k)"

text \<open>\<open>Array.prototype.join\<close> on strings.\<close>

fun join :: "string \<Rightarrow> string list \<Rightarrow> string" where
  "join sep [] = []"
| "join sep [x] = x"
| "join sep (x # y # ys) = x @ sep @ join sep (y # ys)"

text \<open>Decimal text of a natural number, as a template literal prints an array index.\<close>

fun showNat :: "nat \<Rightarrow> string" where
  "showNat n =
     (if n < 10 then [''0123456789'' ! n]
      else showNat (n div 10) @ [''0123456789'' ! (n mod 10)])"

declare showNat.simps [simp del]

section \<open>Plan request normalizer (planUtils)\<close>

text \<open>
  \<open>estimateProcessingTime(destination, duration, travelers)\<close>. The duration is the
  integer that \<open>Math.ceil\<close> returned and the traveller count is an integer, so both are
  \<^typ>\<open>int\<close>; the local variable \<open>estimatedSeconds\<close> is updated three times and then
  capped.
\<close>

definition complexDestinations :: "string list" where
  "complexDestinations = [''asia'', ''africa'', ''multiple'', ''tour'']"

definition estimateProcessingTime :: "string \<Rightarrow> int \<Rightarrow> int \<Rightarrow> int" where
  "estimateProcessingTime destination duration travelers =
     (let estimatedSeconds = 10;
          estimatedSeconds = estimatedSeconds + min (duration * 2) 20;
          estimatedSeconds = estimatedSeconds + min (travelers * 2) 10;
          estimatedSeconds =
            (if list_ex (\<lambda>keyword. includes_js (toLowerCase destination) keyword)
                  complexDestinations
             then estimatedSeconds + 10 else estimatedSeconds)
      in min estimatedSeconds 45)"

text \<open>
  A date of a request: the text the request carries and the time value (milliseconds
  since the epoch) that \<open>new Date\<close> gives for that text. A text that \<open>new Date\<close>
  cannot read, whose time value is \<open>NaN\<close>, is not represented.
\<close>

record date =
  dateText :: string
  dateValue :: int

record preferences =
  travelStyle :: "string option"
  interests :: "string list option"

text \<open>
  The plan request. \<open>travelers\<close> and \<open>preferences\<close> and the members of
  \<open>preferences\<close> may be absent (\<open>undefined\<close>), which is \<open>None\<close>.
\<close>

record planRequest =
  destination :: string
  startDate :: date
  endDate :: date
  budget :: real
  currency :: string
  travelers :: "int option"
  preferences :: "preferences option"








text \<open>
  The request of the unit test "should generate consistent cache keys for same input".
\<close>

definition parisRequest :: planRequest where
  "parisRequest =
     \<lparr>destination = ''Paris'',
      startDate = \<lparr>dateText = ''2026-06-01'', dateValue = 1780272000000\<rparr>,
      endDate = \<lparr>dateText = ''2026-06-07'', dateValue = 1780790400000\<rparr>,
      budget = 2000, currency = ''USD'', travelers = Some 1,
      preferences = Some \<lparr>travelStyle = Some ''mid-range'',
                           interests = Some [''culture'', ''food'']\<rparr>\<rparr>"

section \<open>AI plan generator (GeminiService)\<close>

text \<open>
  The usage metadata of a provider response. A count that is absent is \<open>None\<close>;
  the source reads it as \<open>usageMetadata.promptTokenCount || 0\<close>, so an absent count
  and a zero count both give 0.
\<close>

record usageMetadata =
  promptTokenCount :: "nat option"
  candidatesTokenCount :: "nat option"

definition orZero :: "nat option \<Rightarrow> nat" where
  "orZero v = (case v of None \<Rightarrow> 0 | Some n \<Rightarrow> (if n = 0 then 0 else n))"

definition calculateCreditsUsed :: "usageMetadata option \<Rightarrow> nat" where
  "calculateCreditsUsed um =
     (case um of
        None \<Rightarrow> 1
      | Some u \<Rightarrow>
          (let inputTokens = orZero (promptTokenCount u);
               outputTokens = orZero (candidatesTokenCount u)
           in nat \<lceil>real (inputTokens + outputTokens) / 1000\<rceil>))"

text \<open>
  A decoded JSON value. An object keeps its members in source order; \<open>JSON.parse\<close>
  lets a later duplicate key win, so a member is looked up from the end. The member
  names read by this service (\<open>mainRoutes\<close>, \<open>id\<close>, ...) are no built-in properties
  of strings, numbers, booleans or arrays, so reading them from such a value gives
  \<open>undefined\<close> (\<open>None\<close>); reading a property of \<open>null\<close> throws a \<open>TypeError\<close>,
  which the callers below check first.
\<close>

datatype json =
    JNull
  | JBool bool
  | JNum real
  | JStr string
  | JArr "json list"
  | JObj "(string \<times> json) list"

definition getProp :: "json \<Rightarrow> string \<Rightarrow> json option" where
  "getProp v field = (case v of JObj members \<Rightarrow> map_of (rev members) field | _ \<Rightarrow> None)"

text \<open>Truthiness of a property read, as \<open>!plan[field]\<close> tests it.\<close>

fun truthy :: "json option \<Rightarrow> bool" where
  "truthy None = False"
| "truthy (Some JNull) = False"
| "truthy (Some (JBool b)) = b"
| "truthy (Some (JNum x)) = (x \<noteq> 0)"
| "truthy (Some (JStr s)) = (s \<noteq> [])"
| "truthy (Some (JArr xs)) = True"
| "truthy (Some (JObj members)) = True"

text \<open>An exception is a value: the kind of the error object and its message.\<close>

datatype error = Error string | TypeError string

fun message :: "error \<Rightarrow> string" where
  "message (Error m) = m"
| "message (TypeError m) = m"

definition required :: "string list" where
  "required = [''mainRoutes'', ''surpriseAlternatives'', ''localTips'', ''timingAdvice'']"

definition routeRequired :: "string list" where
  "routeRequired = [''id'', ''name'', ''totalCost'', ''breakdown'', ''dailyPlan'']"

text \<open>
  The \<open>forEach\<close> over \<open>plan.mainRoutes\<close> of \<open>validateTravelPlan\<close>, with the index it
  passes to the callback; the first route that throws ends the loop.
\<close>

fun validateRoutes :: "json list \<Rightarrow> nat \<Rightarrow> error + unit" where
  "validateRoutes [] index = Inr ()"
| "validateRoutes (route # rest) index =
     (if route = JNull then Inl (TypeError ''Cannot read properties of null'')
      else
        (let routeMissing = filter (\<lambda>field. getProp route field = None) routeRequired
         in if length routeMissing > 0
            then Inl (Error (''Route '' @ showNat (index + 1) @ '' missing fields: ''
                             @ join '', '' routeMissing))
            else validateRoutes rest (index + 1)))"

definition GeminiService_validateTravelPlan :: "json \<Rightarrow> error + unit" where
  "GeminiService_validateTravelPlan plan =
     (if plan = JNull
      then Inl (TypeError ''Cannot read properties of null'')
      else
        (let missing = filter (\<lambda>field. \<not> truthy (getProp plan field)) required
         in if length missing > 0
            then Inl (Error (''Missing required fields: '' @ join '', '' missing))
            else
              (case getProp plan ''mainRoutes'' of
                 Some (JArr mainRoutes) \<Rightarrow>
                   (if length mainRoutes = 0
                    then Inl (Error ''At least one main route is required'')
                    else validateRoutes mainRoutes 0)
               | _ \<Rightarrow> Inl (Error ''At least one main route is required''))))"

text \<open>
  The text of a provider response, as the two regular expressions and \<open>JSON.parse\<close>
  of \<open>parseGeminiResponse\<close> see it: no JSON span at all, a span that \<open>JSON.parse\<close>
  rejects (with the parser's message), or a span that decodes to a value.
\<close>

datatype responseText = NoJson | BadJson string | Json json

text \<open>The body of the \<open>try\<close> block of \<open>parseGeminiResponse\<close>.\<close>

definition parseGeminiResponse_try :: "responseText \<Rightarrow> error + json" where
  "parseGeminiResponse_try t =
     (case t of
        NoJson \<Rightarrow> Inl (Error ''No JSON found in Gemini response'')
      | BadJson m \<Rightarrow> Inl (Error m)
      | Json parsed \<Rightarrow>
          (case GeminiService_validateTravelPlan parsed of
             Inl e \<Rightarrow> Inl e
           | Inr _ \<Rightarrow> Inr parsed))"

text \<open>Its \<open>catch\<close> logs the error and throws a new one with a fixed message.\<close>

definition parseGeminiResponse :: "responseText \<Rightarrow> error + json" where
  "parseGeminiResponse t =
     (case parseGeminiResponse_try t of
        Inl e \<Rightarrow> Inl (Error ''Invalid response format from AI service'')
      | Inr parsed \<Rightarrow> Inr parsed)"

definition handleGeminiError :: "error \<Rightarrow> error" where
  "handleGeminiError e =
     (if includes_js (message e) ''quota'' then Error ''GEMINI_QUOTA_EXCEEDED''
      else if includes_js (message e) ''safety'' then Error ''CONTENT_FILTERED''
      else if includes_js (message e) ''rate limit'' then Error ''RATE_LIMIT_EXCEEDED''
      else Error ''GEMINI_API_ERROR'')"

text \<open>
  What \<open>model.generateContent\<close> resolves to: an object whose \<open>response\<close> may be
  absent; a rejected call is the \<open>Inl\<close> of the outcome handed to
  \<open>generateTravelPlan\<close>.
\<close>

record apiResponse =
  responseText :: responseText
  usageMetadata :: "usageMetadata option"

record apiResult =
  response :: "apiResponse option"

text \<open>
  The value \<open>generateTravelPlan\<close> returns: the decoded plan, spread into an object
  that also holds \<open>metadata\<close>, of which the credit count is kept here.
\<close>

record generated =
  travelPlan :: json
  creditsUsed :: nat

definition GeminiService_generateTravelPlan_try :: "error + apiResult \<Rightarrow> error + generated" where
  "GeminiService_generateTravelPlan_try outcome =
     (case outcome of
        Inl e \<Rightarrow> Inl e
      | Inr result \<Rightarrow>
          (case response result of
             None \<Rightarrow> Inl (Error ''No response from Gemini API'')
           | Some resp \<Rightarrow>
               (case parseGeminiResponse (responseText resp) of
                  Inl e \<Rightarrow> Inl e
                | Inr plan \<Rightarrow>
                    Inr \<lparr>travelPlan = plan,
                         creditsUsed = calculateCreditsUsed (usageMetadata resp)\<rparr>)))"

definition GeminiService_generateTravelPlan :: "error + apiResult \<Rightarrow> error + generated" where
  "GeminiService_generateTravelPlan outcome =
     (case GeminiService_generateTravelPlan_try outcome of
        Inl e \<Rightarrow> Inl (handleGeminiError e)
      | Inr g \<Rightarrow> Inr g)"

text \<open>
  The plan of the unit test "should throw error for incomplete route data": its only
  route has an id and a name and nothing else.
\<close>

definition incompleteRoutePlan :: json where
  "incompleteRoutePlan =
     JObj [(''mainRoutes'', JArr [JObj [(''id'', JNum 1), (''name'', JStr ''Test Route'')]]),
           (''surpriseAlternatives'', JArr []),
           (''localTips'', JArr []),
           (''timingAdvice'', JObj [])]"

section \<open>Destination verification (DestinationVerification)\<close>











record accessibility =
  hasAirport :: bool
  transportOptions :: "string list"
  visaFree :: bool

record destinationInfo =
  isAccessible :: bool
  isSafe :: bool
  country :: "string option"
  visaRequired :: bool
  warnings :: "string list"
  recommendations :: "string list"
  travelAdvisory :: "string option"
  accessibility :: accessibility

definition visaFreeForTurks :: "string list" where
  "visaFreeForTurks =
     [''Turkey'', ''Albania'', ''Bosnia and Herzegovina'', ''Montenegro'', ''Serbia'',
      ''North Macedonia'', ''Moldova'', ''Ukraine'', ''Georgia'', ''Azerbaijan'',
      ''Kazakhstan'', ''Kyrgyzstan'', ''Uzbekistan'', ''Tajikistan'', ''Qatar'',
      ''Malaysia'', ''Thailand'', ''Philippines'', ''Indonesia'', ''Singapore'',
      ''South Korea'', ''Japan'', ''Hong Kong'', ''Macao'', ''Morocco'', ''Tunisia'',
      ''South Africa'', ''Brazil'', ''Argentina'', ''Chile'', ''Peru'', ''Colombia'',
      ''Ecuador'', ''Bolivia'', ''Paraguay'', ''Uruguay'']"

definition eVisaCountries :: "string list" where
  "eVisaCountries =
     [''United States'', ''Canada'', ''Australia'', ''India'', ''Vietnam'',
      ''Egypt'', ''Kenya'', ''Tanzania'', ''Ethiopia'', ''Madagascar'',
      ''Cambodia'', ''Laos'', ''Myanmar'', ''Sri Lanka'', ''Bangladesh'']"

definition schengenCountries :: "string list" where
  "schengenCountries =
     [''Austria'', ''Belgium'', ''Czech Republic'', ''Denmark'', ''Estonia'',
      ''Finland'', ''France'', ''Germany'', ''Greece'', ''Hungary'', ''Iceland'',
      ''Italy'', ''Latvia'', ''Lithuania'', ''Luxembourg'', ''Malta'',
      ''Netherlands'', ''Norway'', ''Poland'', ''Portugal'', ''Slovakia'',
      ''Slovenia'', ''Spain'', ''Sweden'', ''Switzerland'']"

text \<open>\<open>result.recommendations.push(r)\<close>.\<close>

definition pushRecommendation :: "string \<Rightarrow> destinationInfo \<Rightarrow> destinationInfo" where
  "pushRecommendation r result = result\<lparr>recommendations := recommendations result @ [r]\<rparr>"

definition addTurkishTravelerRecommendations ::
    "destinationInfo \<Rightarrow> string \<Rightarrow> destinationInfo" where
  "addTurkishTravelerRecommendations result0 countryName =
     (let result =
            (if countryName \<in> set visaFreeForTurks
             then (pushRecommendation ''Visa-free travel for Turkish passport holders''
                     (result0\<lparr>accessibility := (accessibility result0)\<lparr>visaFree := True\<rparr>\<rparr>))
                  \<lparr>visaRequired := False\<rparr>
             else if countryName \<in> set eVisaCountries
             then pushRecommendation ''E-visa available for Turkish passport holders'' result0
             else if countryName \<in> set schengenCountries
             then pushRecommendation
                    ''Schengen visa required - can visit multiple EU countries'' result0
             else result0);
          result =
            (if countryName = ''United States''
             then pushRecommendation ''Interview may be required for visa''
                    (pushRecommendation ''ESTA or B1/B2 visa required'' result)
             else result);
          result =
            (if countryName = ''United Kingdom''
             then pushRecommendation ''UK visa required for Turkish passport holders'' result
             else result);
          result =
            (if countryName = ''Canada''
             then pushRecommendation ''eTA or visitor visa required'' result
             else result);
          result =
            (if countryName = ''Australia''
             then pushRecommendation ''ETA or visitor visa required'' result
             else result)
      in if countryName \<in> set schengenCountries
         then pushRecommendation ''Travel insurance required for Schengen visa''
                (pushRecommendation ''Apply for Schengen visa at consulate'' result)
         else result)"





section \<open>JavaScript numbers and template literals\<close>

text \<open>
  A number is a real or one of the three non-finite values that a division by zero
  produces. Rounding and overflow of doubles are not modelled, and a zero is the
  positive zero. The operations below follow IEEE 754 on the non-finite values; a
  comparison with \<open>NaN\<close> is false.
\<close>

datatype jsnum = Fin real | PosInf | NegInf | NaN

fun jssign :: "jsnum \<Rightarrow> int" where
  "jssign (Fin a) = (if a > 0 then 1 else if a < 0 then - 1 else 0)"
| "jssign PosInf = 1"
| "jssign NegInf = - 1"
| "jssign NaN = 0"

definition ofSign :: "int \<Rightarrow> jsnum" where
  "ofSign s = (if s > 0 then PosInf else if s < 0 then NegInf else NaN)"

fun jsneg :: "jsnum \<Rightarrow> jsnum" where
  "jsneg (Fin a) = Fin (- a)"
| "jsneg PosInf = NegInf"
| "jsneg NegInf = PosInf"
| "jsneg NaN = NaN"

fun jsplus :: "jsnum \<Rightarrow> jsnum \<Rightarrow> jsnum" where
  "jsplus (Fin a) (Fin b) = Fin (a + b)"
| "jsplus NaN y = NaN"
| "jsplus x NaN = NaN"
| "jsplus PosInf NegInf = NaN"
| "jsplus NegInf PosInf = NaN"
| "jsplus PosInf y = PosInf"
| "jsplus NegInf y = NegInf"
| "jsplus (Fin a) y = y"

definition jsminus :: "jsnum \<Rightarrow> jsnum \<Rightarrow> jsnum" where
  "jsminus x y = jsplus x (jsneg y)"

fun jstimes :: "jsnum \<Rightarrow> jsnum \<Rightarrow> jsnum" where
  "jstimes (Fin a) (Fin b) = Fin (a * b)"
| "jstimes NaN y = NaN"
| "jstimes x NaN = NaN"
| "jstimes x y = ofSign (jssign x * jssign y)"

fun jsdivide :: "jsnum \<Rightarrow> jsnum \<Rightarrow> jsnum" where
  "jsdivide (Fin a) (Fin b) = (if b \<noteq> 0 then Fin (a / b) else ofSign (jssign (Fin a)))"
| "jsdivide NaN y = NaN"
| "jsdivide x NaN = NaN"
| "jsdivide (Fin a) y = Fin 0"
| "jsdivide x (Fin b) = ofSign (jssign x * (if b < 0 then - 1 else 1))"
| "jsdivide x y = NaN"

fun Math_abs :: "jsnum \<Rightarrow> jsnum" where
  "Math_abs (Fin a) = Fin \<bar>a\<bar>"
| "Math_abs PosInf = PosInf"
| "Math_abs NegInf = PosInf"
| "Math_abs NaN = NaN"

fun Math_sqrt :: "jsnum \<Rightarrow> jsnum" where
  "Math_sqrt (Fin a) = (if a \<ge> 0 then Fin (sqrt a) else NaN)"
| "Math_sqrt PosInf = PosInf"
| "Math_sqrt NegInf = NaN"
| "Math_sqrt NaN = NaN"

text \<open>\<open>Math.pow(x, 2)\<close>.\<close>

fun Math_pow2 :: "jsnum \<Rightarrow> jsnum" where
  "Math_pow2 (Fin a) = Fin (a ^ 2)"
| "Math_pow2 PosInf = PosInf"
| "Math_pow2 NegInf = PosInf"
| "Math_pow2 NaN = NaN"

fun jsless :: "jsnum \<Rightarrow> jsnum \<Rightarrow> bool" where
  "jsless (Fin a) (Fin b) = (a < b)"
| "jsless NaN y = False"
| "jsless x NaN = False"
| "jsless x NegInf = False"
| "jsless PosInf y = False"
| "jsless NegInf y = True"
| "jsless (Fin a) PosInf = True"

definition jsgreater :: "jsnum \<Rightarrow> jsnum \<Rightarrow> bool" where
  "jsgreater x y = jsless y x"

text \<open>
  A template literal is kept as the list of its parts, so that no decimal rendering
  of a number has to be chosen: a piece of text, an interpolated number, or a number
  under \<open>toFixed(d)\<close>. A plain string is the one-piece template.
\<close>

datatype piece = Txt string | Num jsnum | Fixed nat jsnum

type_synonym msg = "piece list"

section \<open>Price sanity validator (PriceValidation)\<close>

record range =
  min_r :: real
  max_r :: real

text \<open>The table \<open>priceBoundaries\<close>, one field for each category and sub-category.\<close>

record boundaries =
  flights_domestic :: range
  flights_international :: range
  flights_luxury :: range
  hotels_budget :: range
  hotels_midRange :: range
  hotels_luxury :: range
  activities_perDay :: range
  activities_perActivity :: range
  food_perDay :: range
  food_budget :: range
  food_midRange :: range
  food_luxury :: range
  transport_perDay :: range
  transport_perKm :: range

definition priceBoundaries :: boundaries where
  "priceBoundaries =
     \<lparr>flights_domestic = \<lparr>min_r = 50, max_r = 1000\<rparr>,
      flights_international = \<lparr>min_r = 200, max_r = 5000\<rparr>,
      flights_luxury = \<lparr>min_r = 1000, max_r = 15000\<rparr>,
      hotels_budget = \<lparr>min_r = 15, max_r = 100\<rparr>,
      hotels_midRange = \<lparr>min_r = 50, max_r = 300\<rparr>,
      hotels_luxury = \<lparr>min_r = 200, max_r = 2000\<rparr>,
      activities_perDay = \<lparr>min_r = 10, max_r = 500\<rparr>,
      activities_perActivity = \<lparr>min_r = 5, max_r = 300\<rparr>,
      food_perDay = \<lparr>min_r = 10, max_r = 200\<rparr>,
      food_budget = \<lparr>min_r = 10, max_r = 50\<rparr>,
      food_midRange = \<lparr>min_r = 30, max_r = 100\<rparr>,
      food_luxury = \<lparr>min_r = 80, max_r = 200\<rparr>,
      transport_perDay = \<lparr>min_r = 5, max_r = 100\<rparr>,
      transport_perKm = \<lparr>min_r = 1 / 10, max_r = 5\<rparr>\<rparr>"

definition countryMultipliers :: "(string \<times> real) list" where
  "countryMultipliers =
     [(''USA'', 12 / 10), (''Canada'', 11 / 10), (''UK'', 115 / 100), (''Germany'', 11 / 10),
      (''France'', 11 / 10), (''Italy'', 1), (''Spain'', 9 / 10), (''Japan'', 13 / 10),
      (''Australia'', 12 / 10), (''Netherlands'', 11 / 10), (''Switzerland'', 15 / 10),
      (''Turkey'', 6 / 10), (''Thailand'', 4 / 10), (''Vietnam'', 3 / 10), (''India'', 3 / 10),
      (''Mexico'', 5 / 10), (''Egypt'', 4 / 10), (''Morocco'', 4 / 10), (''Indonesia'', 4 / 10),
      (''Philippines'', 4 / 10), (''Malaysia'', 5 / 10), (''Brazil'', 6 / 10),
      (''default'', 8 / 10)]"

text \<open>\<open>this.countryMultipliers[destination] || this.countryMultipliers.default\<close>.\<close>

definition countryMultiplier :: "string \<Rightarrow> real" where
  "countryMultiplier dest =
     (case map_of countryMultipliers dest of
        Some m \<Rightarrow> (if m \<noteq> 0 then m else 8 / 10)
      | None \<Rightarrow> 8 / 10)"

definition countryKeywords :: "(string \<times> string list) list" where
  "countryKeywords =
     [(''Turkey'', [''turkey'', ''istanbul'', ''ankara'', ''antalya'', ''cappadocia'']),
      (''Thailand'', [''thailand'', ''bangkok'', ''phuket'', ''chiang mai'']),
      (''USA'', [''usa'', ''america'', ''new york'', ''los angeles'', ''san francisco'']),
      (''France'', [''france'', ''paris'', ''lyon'', ''marseille'']),
      (''Italy'', [''italy'', ''rome'', ''milan'', ''venice'', ''florence'']),
      (''Spain'', [''spain'', ''madrid'', ''barcelona'', ''seville'']),
      (''Germany'', [''germany'', ''berlin'', ''munich'', ''hamburg'']),
      (''UK'', [''uk'', ''england'', ''london'', ''manchester'', ''edinburgh'']),
      (''Japan'', [''japan'', ''tokyo'', ''osaka'', ''kyoto''])]"

fun extractCountry_loop :: "string \<Rightarrow> (string \<times> string list) list \<Rightarrow> string" where
  "extractCountry_loop lowerDestination [] = ''default''"
| "extractCountry_loop lowerDestination ((countryName, keywords) # rest) =
     (if list_ex (\<lambda>keyword. includes_js lowerDestination keyword) keywords
      then countryName
      else extractCountry_loop lowerDestination rest)"

definition extractCountry :: "string \<Rightarrow> string" where
  "extractCountry dest = extractCountry_loop (toLowerCase dest) countryKeywords"

definition PriceValidation_calculateDuration :: "date \<Rightarrow> date \<Rightarrow> int" where
  "PriceValidation_calculateDuration start end' =
     (let diffTime = \<bar>dateValue end' - dateValue start\<bar>
      in \<lceil>real_of_int diffTime / (1000 * 60 * 60 * 24)\<rceil>)"

text \<open>\<open>multipliers[travelStyle] || 1.0\<close>.\<close>

definition getTravelStyleMultiplier :: "string \<Rightarrow> real" where
  "getTravelStyleMultiplier style =
     (case map_of [(''budget'', 7 / 10), (''mid-range'', 1), (''luxury'', 18 / 10)] style of
        Some m \<Rightarrow> m
      | None \<Rightarrow> 1)"

definition scaleRange :: "real \<Rightarrow> range \<Rightarrow> range" where
  "scaleRange k r = \<lparr>min_r = min_r r * k, max_r = max_r r * k\<rparr>"

definition adjustBoundariesForCountry :: "real \<Rightarrow> real \<Rightarrow> boundaries" where
  "adjustBoundariesForCountry countryMul styleMul =
     (let k = countryMul * styleMul; b = priceBoundaries
      in \<lparr>flights_domestic = scaleRange k (flights_domestic b),
          flights_international = scaleRange k (flights_international b),
          flights_luxury = scaleRange k (flights_luxury b),
          hotels_budget = scaleRange k (hotels_budget b),
          hotels_midRange = scaleRange k (hotels_midRange b),
          hotels_luxury = scaleRange k (hotels_luxury b),
          activities_perDay = scaleRange k (activities_perDay b),
          activities_perActivity = scaleRange k (activities_perActivity b),
          food_perDay = scaleRange k (food_perDay b),
          food_budget = scaleRange k (food_budget b),
          food_midRange = scaleRange k (food_midRange b),
          food_luxury = scaleRange k (food_luxury b),
          transport_perDay = scaleRange k (transport_perDay b),
          transport_perKm = scaleRange k (transport_perKm b)\<rparr>)"

record breakdown =
  flights :: real
  hotels :: real
  activities :: real

record route =
  id_r :: int
  name :: string
  totalCost :: real
  breakdown :: breakdown

text \<open>The object \<open>{ isValid, errors, warnings }\<close> of the component checks.\<close>

record checks =
  isValid :: bool
  errors :: "msg list"
  warnings_v :: "msg list"

definition validateFlightPrices :: "real \<Rightarrow> real \<Rightarrow> boundaries \<Rightarrow> checks" where
  "validateFlightPrices flightCost travelerCount bounds =
     (let validation = \<lparr>isValid = True, errors = [], warnings_v = []\<rparr>;
          costPerPerson = jsdivide (Fin flightCost) (Fin travelerCount)
      in if jsless costPerPerson (Fin (min_r (flights_international bounds)))
         then validation\<lparr>warnings_v := warnings_v validation
                @ [[Txt ''Flight price ('', Num costPerPerson,
                    Txt '' per person) seems unusually low'']]\<rparr>
         else if jsgreater costPerPerson (Fin (max_r (flights_international bounds)))
         then validation\<lparr>errors := errors validation
                @ [[Txt ''Flight price ('', Num costPerPerson,
                    Txt '' per person) seems unusually high'']],
                isValid := False\<rparr>
         else if jsgreater costPerPerson (Fin (max_r (flights_international bounds) * (8 / 10)))
         then validation\<lparr>warnings_v := warnings_v validation
                @ [[Txt ''Flight price ('', Num costPerPerson,
                    Txt '' per person) is quite expensive'']]\<rparr>
         else validation)"

definition validateHotelPrices ::
    "real \<Rightarrow> real \<Rightarrow> real \<Rightarrow> boundaries \<Rightarrow> string \<Rightarrow> checks" where
  "validateHotelPrices hotelCost duration travelerCount bounds style =
     (let validation = \<lparr>isValid = True, errors = [], warnings_v = []\<rparr>;
          costPerNight = jsdivide (Fin hotelCost) (Fin duration);
          expectedRange =
            (if style = ''budget'' then hotels_budget bounds
             else if style = ''luxury'' then hotels_luxury bounds
             else hotels_midRange bounds)
      in if jsless costPerNight (Fin (min_r expectedRange))
         then validation\<lparr>warnings_v := warnings_v validation
                @ [[Txt ''Hotel price ('', Num costPerNight,
                    Txt '' per night) seems low for '', Txt style, Txt '' category'']]\<rparr>
         else if jsgreater costPerNight (Fin (max_r expectedRange))
         then validation\<lparr>errors := errors validation
                @ [[Txt ''Hotel price ('', Num costPerNight,
                    Txt '' per night) exceeds '', Txt style, Txt '' category limits'']],
                isValid := False\<rparr>
         else if jsgreater costPerNight (Fin (max_r expectedRange * (8 / 10)))
         then validation\<lparr>warnings_v := warnings_v validation
                @ [[Txt ''Hotel price ('', Num costPerNight,
                    Txt '' per night) is at the high end for '', Txt style]]\<rparr>
         else validation)"

definition validateActivityPrices :: "real \<Rightarrow> real \<Rightarrow> real \<Rightarrow> boundaries \<Rightarrow> checks" where
  "validateActivityPrices activityCost duration travelerCount bounds =
     (let validation = \<lparr>isValid = True, errors = [], warnings_v = []\<rparr>;
          costPerDay = jsdivide (Fin activityCost) (Fin duration)
      in if jsgreater costPerDay (Fin (max_r (activities_perDay bounds)))
         then validation\<lparr>warnings_v := warnings_v validation
                @ [[Txt ''Activity cost ('', Num costPerDay, Txt '' per day) seems high'']]\<rparr>
         else if jsless costPerDay (Fin (min_r (activities_perDay bounds)))
         then validation\<lparr>warnings_v := warnings_v validation
                @ [[Txt ''Activity cost ('', Num costPerDay,
                    Txt '' per day) seems low - consider adding more activities'']]\<rparr>
         else validation)"

text \<open>
  The object that \<open>validateRoute\<close> returns: the three fields of a check and the
  component checks under \<open>breakdown\<close>.
\<close>

record routeValidation = checks +
  breakdown_flights :: checks
  breakdown_hotels :: checks
  breakdown_activities :: checks

text \<open>
  \<open>validateRoute\<close>. The parameter \<open>travelStyle\<close> has the default \<open>'mid-range'\<close>,
  which applies when the caller passes \<open>undefined\<close> (\<open>None\<close>).
\<close>

definition validateRoute ::
    "route \<Rightarrow> real \<Rightarrow> real \<Rightarrow> real \<Rightarrow> real \<Rightarrow> string option \<Rightarrow> routeValidation" where
  "validateRoute rt budgetUSD duration travelerCount countryMul styleOpt =
     (let style = (case styleOpt of None \<Rightarrow> ''mid-range'' | Some st \<Rightarrow> st);
          styleMultiplier = getTravelStyleMultiplier style;
          adjustedBoundaries = adjustBoundariesForCountry countryMul styleMultiplier;
          flightValidation =
            validateFlightPrices (flights (breakdown rt)) travelerCount adjustedBoundaries;
          isValid1 = isValid flightValidation;
          errors1 = (if \<not> isValid flightValidation then errors flightValidation else []);
          warnings1 = warnings_v flightValidation;
          hotelValidation =
            validateHotelPrices (hotels (breakdown rt)) duration travelerCount
              adjustedBoundaries style;
          isValid2 = (isValid1 \<and> isValid hotelValidation);
          errors2 = errors1 @ (if \<not> isValid hotelValidation then errors hotelValidation else []);
          warnings2 = warnings1 @ warnings_v hotelValidation;
          activityValidation =
            validateActivityPrices (activities (breakdown rt)) duration travelerCount
              adjustedBoundaries;
          warnings3 = warnings2 @ warnings_v activityValidation;
          budgetPerPerson = jsdivide (Fin budgetUSD) (Fin travelerCount);
          overBudget = jsgreater (Fin (totalCost rt)) (jstimes budgetPerPerson (Fin (12 / 10)));
          errors3 =
            (if overBudget
             then errors2 @ [[Txt ''Route total cost ('', Num (Fin (totalCost rt)),
                              Txt '') exceeds budget by more than 20%'']]
             else errors2);
          isValid3 = (if overBudget then False else isValid2);
          warnings4 =
            (if \<not> overBudget \<and> jsgreater (Fin (totalCost rt)) budgetPerPerson
             then warnings3 @ [[Txt ''Route total cost ('', Num (Fin (totalCost rt)),
                                Txt '') slightly exceeds budget'']]
             else warnings3);
          minReasonableCost =
            (min_r (flights_international adjustedBoundaries)
             + min_r (hotels_budget adjustedBoundaries) * duration
             + min_r (activities_perDay adjustedBoundaries) * duration) * travelerCount;
          warnings5 =
            (if totalCost rt < minReasonableCost * (5 / 10)
             then warnings4
                    @ [[Txt ''Route cost seems unusually low, please verify pricing accuracy'']]
             else warnings4)
      in \<lparr>isValid = isValid3, errors = errors3, warnings_v = warnings5,
          breakdown_flights = flightValidation,
          breakdown_hotels = hotelValidation,
          breakdown_activities = activityValidation\<rparr>)"

text \<open>
  \<open>validateBudgetFeasibility\<close> returns an object with the one member \<open>warnings\<close>,
  which is the value here. \<open>reduce\<close> without an initial value starts from the first
  route.
\<close>

definition cheaper :: "route \<Rightarrow> route \<Rightarrow> route" where
  "cheaper minRoute rt = (if totalCost rt < totalCost minRoute then rt else minRoute)"

definition validateBudgetFeasibility :: "route list \<Rightarrow> real \<Rightarrow> string \<Rightarrow> msg list" where
  "validateBudgetFeasibility routes budgetUSD originalCurrency =
     (case routes of
        [] \<Rightarrow> []
      | first # rest \<Rightarrow>
          (let cheapestRoute = foldl cheaper first rest;
               budgetUtilization =
                 jstimes (jsdivide (Fin (totalCost cheapestRoute)) (Fin budgetUSD)) (Fin 100)
           in if jsgreater budgetUtilization (Fin 100)
              then [[Txt ''Even the cheapest option exceeds budget by '',
                     Fixed 1 (jsminus budgetUtilization (Fin 100)), Txt ''%'']]
              else if jsgreater budgetUtilization (Fin 90)
              then [[Txt ''Budget utilization is '', Fixed 1 budgetUtilization,
                     Txt ''% - very tight budget'']]
              else if jsless budgetUtilization (Fin 60)
              then [[Txt ''Budget utilization is only '', Fixed 1 budgetUtilization,
                     Txt ''% - consider upgrading experiences'']]
              else []))"

record statistics =
  mean :: jsnum
  variance :: jsnum
  stdDev :: jsnum

definition calculateStatistics :: "real list \<Rightarrow> statistics" where
  "calculateStatistics vals =
     (let mean = jsdivide (Fin (foldl (\<lambda>sum val. sum + val) 0 vals)) (Fin (real (length vals)));
          variance =
            jsdivide
              (foldl (\<lambda>sum val. jsplus sum (Math_pow2 (jsminus (Fin val) mean))) (Fin 0) vals)
              (Fin (real (length vals)));
          stdDev = Math_sqrt variance
      in \<lparr>mean = mean, variance = variance, stdDev = stdDev\<rparr>)"

text \<open>
  An entry of \<open>detection.outliers\<close>. The source stores \<open>zScore.toFixed(2)\<close>; the number
  itself is kept here.
\<close>

record outlier =
  routeId :: int
  category :: string
  value_o :: real
  zScore :: jsnum
  isHigh :: bool

record detection =
  warnings_d :: "msg list"
  outliers :: "outlier list"

text \<open>
  \<open>category === 'totalCost' ? route.totalCost : route.breakdown[category]\<close>, for the
  four categories over which \<open>detectPriceOutliers\<close> iterates.
\<close>

definition categoryValue :: "string \<Rightarrow> route \<Rightarrow> real" where
  "categoryValue cat rt =
     (if cat = ''totalCost'' then totalCost rt
      else if cat = ''flights'' then flights (breakdown rt)
      else if cat = ''hotels'' then hotels (breakdown rt)
      else activities (breakdown rt))"

text \<open>The body of \<open>categories.forEach\<close>: the outliers pushed for one category.\<close>

definition categoryOutliers :: "string \<Rightarrow> route list \<Rightarrow> outlier list" where
  "categoryOutliers cat routes =
     (let vals = map (categoryValue cat) routes;
          stats = calculateStatistics vals
      in concat
           (map (\<lambda>rt.
                   (let val = categoryValue cat rt;
                        z = Math_abs (jsdivide (jsminus (Fin val) (mean stats)) (stdDev stats))
                    in if jsgreater z (Fin 2)
                       then [\<lparr>routeId = id_r rt, category = cat, value_o = val, zScore = z,
                              isHigh = jsgreater (Fin val) (mean stats)\<rparr>]
                       else []))
              routes))"

definition categories :: "string list" where
  "categories = [''totalCost'', ''flights'', ''hotels'', ''activities'']"

definition detectPriceOutliers :: "route list \<Rightarrow> detection" where
  "detectPriceOutliers routes =
     (if length routes < 2 then \<lparr>warnings_d = [], outliers = []\<rparr>
      else
        (let found = concat (map (\<lambda>cat. categoryOutliers cat routes) categories)
         in \<lparr>warnings_d =
               (if length found > 0
                then [[Txt ''Found '', Num (Fin (real (length found))),
                       Txt '' price outliers that may need verification'']]
                else []),
             outliers = found\<rparr>))"

text \<open>
  The member \<open>validationDetails\<close> of the report: the route checks under the keys
  \<open>route_<id>\<close> (a later route with the same id overwrites an earlier one), the budget
  check, the outlier detection, and the error message of the fallback report.
\<close>

record validationDetails =
  details_routes :: "int \<rightharpoonup> routeValidation"
  details_budget :: "msg list option"
  details_outliers :: "detection option"
  details_error :: "string option"

record validationResults = checks +
  details :: validationDetails

text \<open>One turn of the loop over \<open>travelPlan.mainRoutes\<close> in \<open>validateTravelPlan\<close>.\<close>

definition validateTravelPlan_step ::
    "real \<Rightarrow> real \<Rightarrow> real \<Rightarrow> real \<Rightarrow> string option \<Rightarrow> validationResults \<Rightarrow> route
      \<Rightarrow> validationResults" where
  "validateTravelPlan_step budgetInUSD duration travelerCount multiplier styleOpt results rt =
     (let routeResult =
            validateRoute rt budgetInUSD duration travelerCount multiplier styleOpt;
          results =
            results\<lparr>details :=
              (details results)\<lparr>details_routes :=
                 (details_routes (details results))(id_r rt \<mapsto> routeResult)\<rparr>\<rparr>;
          results =
            (if \<not> isValid routeResult
             then results\<lparr>isValid := False, errors := errors results @ errors routeResult\<rparr>
             else results)
      in results\<lparr>warnings_v := warnings_v results @ warnings_v routeResult\<rparr>)"

text \<open>
  The body of the \<open>try\<close> of \<open>validateTravelPlan\<close>. The first argument is the outcome
  of the awaited call \<open>currencyService.convertCurrency(budget, currency, 'USD')\<close>: the
  error it throws, or the \<open>convertedAmount\<close> of the object it returns; the call is made
  only when the currency is not USD. The member \<open>adjustedPlan\<close> of the report is left
  out: \<open>generateAdjustedPlan\<close> works on a copy of the plan and does not raise.
\<close>

definition PriceValidation_validateTravelPlan_try ::
    "error + real \<Rightarrow> route list \<Rightarrow> planRequest \<Rightarrow> error + validationResults" where
  "PriceValidation_validateTravelPlan_try conversion mainRoutes request =
     (let validationResults =
            \<lparr>isValid = True, errors = [], warnings_v = [],
             details = \<lparr>details_routes = Map.empty, details_budget = None,
                        details_outliers = None, details_error = None\<rparr>\<rparr>
      in case (if currency request \<noteq> ''USD'' then conversion else Inr (budget request)) of
           Inl e \<Rightarrow> Inl e
         | Inr budgetInUSD \<Rightarrow>
             (let duration =
                    PriceValidation_calculateDuration (startDate request) (endDate request);
                  travelerCount =
                    (case travelers request of
                       None \<Rightarrow> 1
                     | Some n \<Rightarrow> (if n = 0 then 1 else n));
                  dest = extractCountry (destination request);
                  multiplier = countryMultiplier dest;
                  styleOpt =
                    (case preferences request of None \<Rightarrow> None | Some p \<Rightarrow> travelStyle p);
                  validationResults =
                    foldl (validateTravelPlan_step budgetInUSD (real_of_int duration)
                             (real_of_int travelerCount) multiplier styleOpt)
                      validationResults mainRoutes;
                  budgetValidation =
                    validateBudgetFeasibility mainRoutes budgetInUSD (currency request);
                  validationResults =
                    validationResults
                      \<lparr>details := (details validationResults)
                                    \<lparr>details_budget := Some budgetValidation\<rparr>,
                       warnings_v := warnings_v validationResults @ budgetValidation\<rparr>;
                  outlierDetection = detectPriceOutliers mainRoutes;
                  validationResults =
                    validationResults
                      \<lparr>details := (details validationResults)
                                    \<lparr>details_outliers := Some outlierDetection\<rparr>,
                       warnings_v := warnings_v validationResults
                                     @ warnings_d outlierDetection\<rparr>
              in Inr validationResults))"

text \<open>Its \<open>catch\<close> turns any error into the fallback report.\<close>

definition PriceValidation_validateTravelPlan ::
    "error + real \<Rightarrow> route list \<Rightarrow> planRequest \<Rightarrow> validationResults" where
  "PriceValidation_validateTravelPlan conversion mainRoutes request =
     (case PriceValidation_validateTravelPlan_try conversion mainRoutes request of
        Inr validationResults \<Rightarrow> validationResults
      | Inl e \<Rightarrow>
          \<lparr>isValid = False,
           errors = [[Txt ''Price validation system temporarily unavailable'']],
           warnings_v = [],
           details = \<lparr>details_routes = Map.empty, details_budget = None,
                      details_outliers = None, details_error = Some (message e)\<rparr>\<rparr>)"

text \<open>
  Three routes whose total costs are 1000, 1050 and 5000, each the sum of its
  breakdown.
\<close>

definition route1000 :: route where
  "route1000 =
     \<lparr>id_r = 1, name = ''Economy'', totalCost = 1000,
      breakdown = \<lparr>flights = 500, hotels = 300, activities = 200\<rparr>\<rparr>"

definition route1050 :: route where
  "route1050 =
     \<lparr>id_r = 2, name = ''Standard'', totalCost = 1050,
      breakdown = \<lparr>flights = 500, hotels = 300, activities = 250\<rparr>\<rparr>"

definition route5000 :: route where
  "route5000 =
     \<lparr>id_r = 3, name = ''Premium'', totalCost = 5000,
      breakdown = \<lparr>flights = 500, hotels = 300, activities = 4200\<rparr>\<rparr>"

text \<open>
  Routes for the request \<open>parisRequest\<close> (budget 2000 USD, one traveller, six days):
  the route of the service's unit test, which totals 1800, and two routes whose totals
  are 130% and 105% of the budget.
\<close>

definition route1800 :: route where
  "route1800 =
     \<lparr>id_r = 1, name = ''Classic Paris Experience'', totalCost = 1800,
      breakdown = \<lparr>flights = 800, hotels = 700, activities = 300\<rparr>\<rparr>"



section \<open>Plan orchestrator (travelController)\<close>

text \<open>
  What awaiting \<open>geminiService.generateTravelPlan\<close> yields on success, with the
  routes decoded to the data model; the alternatives and the timing advice are passed
  through as they are.
\<close>

record aiResponse =
  mainRoutes :: "route list"
  surpriseAlternatives :: json
  localTips :: "string list"
  timingAdvice :: json
  metadata_creditsUsed :: nat

text \<open>The member \<open>metadata.priceValidation\<close> of a stored plan.\<close>

record priceValidationSummary =
  summary_isValid :: bool
  warningCount :: nat
  hasOutliers :: bool

text \<open>
  A stored \<open>TravelPlan\<close> document. The status is \<open>draft\<close>, \<open>completed\<close> or
  \<open>failed\<close>; the tips are templates, since the price alerts interpolate numbers.
\<close>

record planRecord =
  doc_user :: string
  doc_planId :: string
  doc_request :: planRequest
  doc_status :: string
  doc_mainRoutes :: "route list"
  doc_surpriseAlternatives :: "json option"
  doc_localTips :: "msg list"
  doc_timingAdvice :: "json option"
  doc_priceValidation :: "priceValidationSummary option"
  doc_error :: "string option"

text \<open>The three prefixes of the advisory tips; each starts with an emoji, in UTF-8.\<close>

definition priceAlertPrefix :: string where
  "priceAlertPrefix =
     [CHR 0xE2, CHR 0x9A, CHR 0xA0, CHR 0xEF, CHR 0xB8, CHR 0x8F] @ '' Price Alert: ''"

definition travelAdvisoryPrefix :: string where
  "travelAdvisoryPrefix = [CHR 0xF0, CHR 0x9F, CHR 0x9A, CHR 0xA8] @ '' Travel Advisory: ''"

definition travelInfoPrefix :: string where
  "travelInfoPrefix = [CHR 0xF0, CHR 0x9F, CHR 0x93, CHR 0x8B] @ '' Travel Info: ''"

text \<open>
  The three blocks of \<open>processTravelPlan\<close> that extend \<open>travelPlan.localTips\<close>, in
  the order of the source.
\<close>

definition addAdvisoryTips ::
    "msg list \<Rightarrow> validationResults \<Rightarrow> destinationInfo \<Rightarrow> msg list" where
  "addAdvisoryTips tips0 validation destInfo =
     (let tips =
            (if length (warnings_v validation) > 0
             then (let validationTips =
                         map (\<lambda>warning. Txt priceAlertPrefix # warning)
                           (take 3 (warnings_v validation))
                   in tips0 @ validationTips)
             else tips0);
          tips =
            (if length (warnings destInfo) > 0
             then (let destinationTips =
                         map (\<lambda>warning. [Txt travelAdvisoryPrefix, Txt warning])
                           (warnings destInfo)
                   in tips @ destinationTips)
             else tips)
      in if length (recommendations destInfo) > 0
         then (let recommendationTips =
                     map (\<lambda>rec. [Txt travelInfoPrefix, Txt rec])
                       (take 2 (recommendations destInfo))
               in tips @ recommendationTips)
         else tips)"

text \<open>
  \<open>TravelPlan.findOneAndUpdate({ planId }, update)\<close>: the first document with that
  plan id is updated.
\<close>

fun findOneAndUpdate ::
    "string \<Rightarrow> (planRecord \<Rightarrow> planRecord) \<Rightarrow> planRecord list \<Rightarrow> planRecord list" where
  "findOneAndUpdate pid upd [] = []"
| "findOneAndUpdate pid upd (d # ds) =
     (if doc_planId d = pid then upd d # ds else d # findOneAndUpdate pid upd ds)"

text \<open>
  \<open>processTravelPlan\<close>, the background continuation. The state is the collection of
  plan documents; the store is taken to accept every write. The outcome of the AI
  call and the outcome of the currency conversion are arguments. The first \<open>save\<close>
  appends the draft; the second \<open>save\<close> writes the same document back, completed.
  When the AI call throws, the \<open>catch\<close> marks the plan failed with the message. The
  metrics and the user's plan counter are left out.
\<close>

definition processTravelPlan ::
    "string \<Rightarrow> planRequest \<Rightarrow> string \<Rightarrow> destinationInfo \<Rightarrow> error + aiResponse
      \<Rightarrow> error + real \<Rightarrow> planRecord list \<Rightarrow> planRecord list" where
  "processTravelPlan pid request userId destInfo aiOutcome conversion db =
     (let travelPlan =
            \<lparr>doc_user = userId, doc_planId = pid, doc_request = request,
             doc_status = ''draft'', doc_mainRoutes = [], doc_surpriseAlternatives = None,
             doc_localTips = [], doc_timingAdvice = None, doc_priceValidation = None,
             doc_error = None\<rparr>;
          db1 = db @ [travelPlan]
      in case aiOutcome of
           Inl e \<Rightarrow>
             findOneAndUpdate pid
               (\<lambda>d. d\<lparr>doc_status := ''failed'', doc_error := Some (message e)\<rparr>) db1
         | Inr ai \<Rightarrow>
             (let validation =
                    PriceValidation_validateTravelPlan conversion (mainRoutes ai) request;
                  travelPlan =
                    travelPlan
                      \<lparr>doc_mainRoutes := mainRoutes ai,
                       doc_surpriseAlternatives := Some (surpriseAlternatives ai),
                       doc_localTips := map (\<lambda>tip. [Txt tip]) (localTips ai),
                       doc_timingAdvice := Some (timingAdvice ai),
                       doc_priceValidation :=
                         Some \<lparr>summary_isValid = isValid validation,
                               warningCount = length (warnings_v validation),
                               hasOutliers =
                                 (case details_outliers (details validation) of
                                    None \<Rightarrow> False
                                  | Some det \<Rightarrow> length (outliers det) > 0)\<rparr>\<rparr>;
                  travelPlan =
                    travelPlan
                      \<lparr>doc_localTips :=
                         addAdvisoryTips (doc_localTips travelPlan) validation destInfo\<rparr>;
                  travelPlan = travelPlan\<lparr>doc_status := ''completed''\<rparr>
              in db @ [travelPlan]))"







section \<open>Properties\<close>

subsection \<open>Strings\<close>

lemma startsWith_iff: "startsWith s k \<longleftrightarrow> (\<exists>suf. s = k @ suf)"
  by (induction s k rule: startsWith.induct) auto

lemma includes_iff: "includes_js s k \<longleftrightarrow> (\<exists>pre suf. s = pre @ k @ suf)"
proof (induction s)
  case Nil
  then show ?case by (cases k) auto
next
  case (Cons c cs)
  show ?case
  proof
    assume "includes_js (c # cs) k"
    then consider "startsWith (c # cs) k" | "includes_js cs k" by auto
    then show "\<exists>pre suf. c # cs = pre @ k @ suf"
    proof cases
      case 1
      then obtain suf where "c # cs = k @ suf" by (auto simp: startsWith_iff)
      then have "c # cs = [] @ k @ suf" by simp
      then show ?thesis by blast
    next
      case 2
      then obtain pre suf where "cs = pre @ k @ suf" using Cons.IH by blast
      then have "c # cs = (c # pre) @ k @ suf" by simp
      then show ?thesis by blast
    qed
  next
    assume "\<exists>pre suf. c # cs = pre @ k @ suf"
    then obtain pre suf where eq: "c # cs = pre @ k @ suf" by blast
    show "includes_js (c # cs) k"
    proof (cases pre)
      case Nil
      with eq have "startsWith (c # cs) k" by (auto simp: startsWith_iff)
      then show ?thesis by simp
    next
      case (Cons p ps)
      with eq have "cs = ps @ k @ suf" by simp
      then have "includes_js cs k" using Cons.IH by blast
      then show ?thesis by simp
    qed
  qed
qed

subsection \<open>Estimated processing time\<close>

text \<open>
  C7. For every destination, every duration \<open>\<ge> 0\<close> and every traveller count \<open>\<ge> 0\<close>,
  the estimate is 10 seconds, plus \<open>min (2 * duration) 20\<close>, plus
  \<open>min (2 * travelers) 10\<close>, plus 10 when the lower-cased destination contains one of
  the keywords asia, africa, multiple, tour, the sum capped at 45; the result lies
  between 10 and 45.
\<close>

theorem estimateProcessingTime_formula:
  assumes "0 \<le> days" and "0 \<le> people"
  shows "estimateProcessingTime dest days people =
           min (10 + min (2 * days) 20 + min (2 * people) 10 +
                (if \<exists>k pre suf. k \<in> {''asia'', ''africa'', ''multiple'', ''tour''} \<and>
                       toLowerCase dest = pre @ k @ suf
                 then 10 else 0)) 45
         \<and> 10 \<le> estimateProcessingTime dest days people
         \<and> estimateProcessingTime dest days people \<le> 45"
proof -
  have "list_ex (\<lambda>keyword. includes_js (toLowerCase dest) keyword) complexDestinations
        \<longleftrightarrow> (\<exists>k\<in>set complexDestinations. \<exists>pre suf. toLowerCase dest = pre @ k @ suf)"
    by (simp only: list_ex_iff includes_iff)
  moreover have "set complexDestinations = {''asia'', ''africa'', ''multiple'', ''tour''}"
    by (simp add: complexDestinations_def)
  ultimately have kw:
    "list_ex (\<lambda>keyword. includes_js (toLowerCase dest) keyword) complexDestinations
     \<longleftrightarrow> (\<exists>k pre suf. k \<in> {''asia'', ''africa'', ''multiple'', ''tour''} \<and>
                       toLowerCase dest = pre @ k @ suf)"
    by blast
  show ?thesis
    using assms unfolding estimateProcessingTime_def Let_def kw
    by (simp add: min_def mult.commute)
qed

theorem estimateProcessingTime_formula_witness:
  "(0::int) \<le> 30 \<and> (0::int) \<le> 10
   \<and> 10 \<le> estimateProcessingTime ''Multiple countries tour'' 30 10
   \<and> estimateProcessingTime ''Multiple countries tour'' 30 10 \<le> 45"
  using estimateProcessingTime_formula [of 30 10 "''Multiple countries tour''"] by simp

subsection \<open>Credits\<close>

lemma ceiling_thousand_one: "nat \<lceil>real n / 1000\<rceil> = 1 \<longleftrightarrow> 0 < n \<and> n \<le> 1000"
proof -
  have "\<lceil>real n / 1000\<rceil> = 1 \<longleftrightarrow> 0 < real n / 1000 \<and> real n / 1000 \<le> 1"
    by (simp add: ceiling_eq_iff)
  moreover have "0 \<le> \<lceil>real n / 1000\<rceil>" by simp
  ultimately show ?thesis by auto
qed

text \<open>
  C10. When the usage metadata object is present and its prompt and completion token
  counts are each absent or zero, the credit cost is 0, not 1. With the object present
  the cost is 1 only when between 1 and 1000 tokens were counted; the default 1 is
  what the absent object gives.
\<close>

theorem calculateCreditsUsed_zero_tokens:
  "(promptTokenCount u \<in> {None, Some 0} \<and> candidatesTokenCount u \<in> {None, Some 0}
      \<longrightarrow> calculateCreditsUsed (Some u) = 0)
   \<and> (calculateCreditsUsed (Some u) = 1
        \<longleftrightarrow> 0 < orZero (promptTokenCount u) + orZero (candidatesTokenCount u)
            \<and> orZero (promptTokenCount u) + orZero (candidatesTokenCount u) \<le> 1000)
   \<and> calculateCreditsUsed None = 1"
proof -
  have a: "promptTokenCount u \<in> {None, Some 0} \<and> candidatesTokenCount u \<in> {None, Some 0}
      \<longrightarrow> calculateCreditsUsed (Some u) = 0"
    by (auto simp: calculateCreditsUsed_def orZero_def)
  have b: "calculateCreditsUsed (Some u) = 1
        \<longleftrightarrow> 0 < orZero (promptTokenCount u) + orZero (candidatesTokenCount u)
            \<and> orZero (promptTokenCount u) + orZero (candidatesTokenCount u) \<le> 1000"
    unfolding calculateCreditsUsed_def Let_def option.case by (rule ceiling_thousand_one)
  have c: "calculateCreditsUsed None = 1" by (simp add: calculateCreditsUsed_def)
  show ?thesis using a b c by blast
qed

theorem calculateCreditsUsed_zero_tokens_witness:
  "calculateCreditsUsed (Some \<lparr>promptTokenCount = None, candidatesTokenCount = Some 0\<rparr>) = 0
   \<and> calculateCreditsUsed None = 1"
  using calculateCreditsUsed_zero_tokens
    [of "\<lparr>promptTokenCount = None, candidatesTokenCount = Some 0\<rparr>"]
  by simp

subsection \<open>Structural validation of the AI response\<close>

lemma validateRoutes_first_missing:
  assumes "\<forall>r\<in>set pre. r \<noteq> JNull \<and> (\<forall>f\<in>set routeRequired. getProp r f \<noteq> None)"
    and "route \<noteq> JNull"
    and "\<exists>f\<in>set routeRequired. getProp route f = None"
  shows "validateRoutes (pre @ route # post) index =
           Inl (Error (''Route '' @ showNat (index + length pre + 1) @ '' missing fields: ''
                       @ join '', '' (filter (\<lambda>field. getProp route field = None) routeRequired)))"
  using assms
proof (induction pre arbitrary: index)
  case Nil
  then have "filter (\<lambda>field. getProp route field = None) routeRequired \<noteq> []"
    by (simp add: filter_empty_conv)
  with Nil show ?case by simp
next
  case (Cons r pre)
  then have "filter (\<lambda>field. getProp r field = None) routeRequired = []"
    by (simp add: filter_empty_conv)
  with Cons show ?case by simp
qed

lemma parseGeminiResponse_generic:
  "GeminiService_validateTravelPlan parsed = Inl e \<Longrightarrow>
   parseGeminiResponse (Json parsed) = Inl (Error ''Invalid response format from AI service'')"
  by (simp add: parseGeminiResponse_def parseGeminiResponse_try_def)

lemma handleGeminiError_invalid_format:
  "handleGeminiError (Error ''Invalid response format from AI service'')
   = Error ''GEMINI_API_ERROR''"
  by (simp add: handleGeminiError_def)

lemma generateTravelPlan_generic:
  "GeminiService_validateTravelPlan parsed = Inl e \<Longrightarrow>
   GeminiService_generateTravelPlan
     (Inr \<lparr>response = Some \<lparr>responseText = Json parsed, usageMetadata = um\<rparr>\<rparr>)
   = Inl (Error ''GEMINI_API_ERROR'')"
  by (simp add: GeminiService_generateTravelPlan_def GeminiService_generateTravelPlan_try_def
      parseGeminiResponse_generic handleGeminiError_invalid_format)

text \<open>
  C5, as stated, fails. For the plan of the unit test, whose route 1 lacks
  \<open>totalCost\<close>, \<open>breakdown\<close> and \<open>dailyPlan\<close>, \<open>validateTravelPlan\<close> does raise the
  error that names the route, but the caller of \<open>generateTravelPlan\<close> observes the
  generic \<open>GEMINI_API_ERROR\<close>, in which no route index appears.
\<close>

theorem malformedRoute_counterexample:
  "GeminiService_validateTravelPlan incompleteRoutePlan
     = Inl (Error ''Route 1 missing fields: totalCost, breakdown, dailyPlan'')
   \<and> GeminiService_generateTravelPlan
       (Inr \<lparr>response = Some \<lparr>responseText = Json incompleteRoutePlan,
                               usageMetadata = None\<rparr>\<rparr>)
     = Inl (Error ''GEMINI_API_ERROR'')
   \<and> \<not> includes_js ''GEMINI_API_ERROR'' ''Route 1''"
proof -
  have v: "GeminiService_validateTravelPlan incompleteRoutePlan
             = Inl (Error ''Route 1 missing fields: totalCost, breakdown, dailyPlan'')"
    by (simp add: incompleteRoutePlan_def GeminiService_validateTravelPlan_def required_def
        routeRequired_def getProp_def showNat.simps)
  have g: "GeminiService_generateTravelPlan
             (Inr \<lparr>response = Some \<lparr>responseText = Json incompleteRoutePlan,
                                     usageMetadata = None\<rparr>\<rparr>)
           = Inl (Error ''GEMINI_API_ERROR'')"
    by (rule generateTravelPlan_generic [OF v])
  have n: "\<not> includes_js ''GEMINI_API_ERROR'' ''Route 1''"
    by simp
  show ?thesis using v g n by blast
qed

text \<open>
  C5, amended. For every decoded AI response whose four top-level fields are present
  and whose \<open>mainRoutes\<close> is an array in which some route lacks one of \<open>id\<close>,
  \<open>name\<close>, \<open>totalCost\<close>, \<open>breakdown\<close>, \<open>dailyPlan\<close> (the routes before it being
  complete), \<open>validateTravelPlan\<close> raises an error whose message names the 1-based
  position of that route and its missing fields; the caller of \<open>generateTravelPlan\<close>
  observes the generic \<open>GEMINI_API_ERROR\<close> instead.
\<close>

theorem malformedRoute_error_chain:
  assumes "plan \<noteq> JNull"
    and "\<forall>f\<in>set required. truthy (getProp plan f)"
    and "getProp plan ''mainRoutes'' = Some (JArr (pre @ route # post))"
    and "\<forall>r\<in>set pre. r \<noteq> JNull \<and> (\<forall>f\<in>set routeRequired. getProp r f \<noteq> None)"
    and "route \<noteq> JNull"
    and "\<exists>f\<in>set routeRequired. getProp route f = None"
  shows "GeminiService_validateTravelPlan plan
           = Inl (Error (''Route '' @ showNat (length pre + 1) @ '' missing fields: ''
                         @ join '', '' (filter (\<lambda>field. getProp route field = None)
                                               routeRequired)))
         \<and> GeminiService_generateTravelPlan
             (Inr \<lparr>response = Some \<lparr>responseText = Json plan, usageMetadata = um\<rparr>\<rparr>)
           = Inl (Error ''GEMINI_API_ERROR'')"
proof -
  have "filter (\<lambda>field. \<not> truthy (getProp plan field)) required = []"
    using assms(2) by (simp add: filter_empty_conv)
  then have v: "GeminiService_validateTravelPlan plan
                  = validateRoutes (pre @ route # post) 0"
    using assms(1,3) by (simp add: GeminiService_validateTravelPlan_def)
  have r: "validateRoutes (pre @ route # post) 0
             = Inl (Error (''Route '' @ showNat (length pre + 1) @ '' missing fields: ''
                           @ join '', '' (filter (\<lambda>field. getProp route field = None)
                                                 routeRequired)))"
    using validateRoutes_first_missing [OF assms(4,5,6), of post 0] by simp
  from v r have e: "GeminiService_validateTravelPlan plan
             = Inl (Error (''Route '' @ showNat (length pre + 1) @ '' missing fields: ''
                           @ join '', '' (filter (\<lambda>field. getProp route field = None)
                                                 routeRequired)))"
    by simp
  show ?thesis
    using e generateTravelPlan_generic [OF e] by simp
qed

theorem malformedRoute_error_chain_witness:
  "GeminiService_validateTravelPlan incompleteRoutePlan
     = Inl (Error (''Route '' @ showNat (length ([] :: json list) + 1) @ '' missing fields: ''
                   @ join '', '' (filter (\<lambda>field.
                        getProp (JObj [(''id'', JNum 1), (''name'', JStr ''Test Route'')]) field
                          = None) routeRequired)))
   \<and> GeminiService_generateTravelPlan
       (Inr \<lparr>response = Some \<lparr>responseText = Json incompleteRoutePlan,
                               usageMetadata = None\<rparr>\<rparr>)
     = Inl (Error ''GEMINI_API_ERROR'')"
  using malformedRoute_error_chain
    [of incompleteRoutePlan "[]" "JObj [(''id'', JNum 1), (''name'', JStr ''Test Route'')]"
        "[]" None]
  by (simp add: incompleteRoutePlan_def required_def routeRequired_def getProp_def)

subsection \<open>Cache fingerprint\<close>




subsection \<open>Cross-route outlier detection\<close>










lemma zscore_bound:
  assumes "0 < V" and "d\<^sup>2 \<le> 4 * V"
  shows "\<not> 2 < \<bar>d\<bar> / sqrt V"
proof -
  have "\<bar>d\<bar> = sqrt (d\<^sup>2)" by simp
  also have "\<dots> \<le> sqrt (4 * V)" using assms(2) by (rule real_sqrt_le_mono)
  also have "\<dots> = 2 * sqrt V" by (simp add: real_sqrt_mult)
  finally have "\<bar>d\<bar> \<le> 2 * sqrt V" .
  moreover have "0 < sqrt V" using assms(1) by simp
  ultimately have "\<bar>d\<bar> / sqrt V \<le> 2" by (simp add: pos_divide_le_eq)
  then show ?thesis by simp
qed

lemma foldl_plus_sum_list:
  "foldl (\<lambda>sum val. sum + val) a vals = a + sum_list (vals :: real list)"
  by (induction vals arbitrary: a) auto

lemma foldl_squares:
  "foldl (\<lambda>sum val. jsplus sum (Math_pow2 (jsminus (Fin val) (Fin m)))) (Fin a) vals
   = Fin (a + (\<Sum>x\<leftarrow>vals. (x - m)\<^sup>2))"
  by (induction vals arbitrary: a) (auto simp: jsminus_def)

lemma calculateStatistics_nonempty:
  assumes "vals \<noteq> []"
  shows "calculateStatistics vals =
           \<lparr>mean = Fin (sum_list vals / real (length vals)),
            variance = Fin ((\<Sum>x\<leftarrow>vals. (x - sum_list vals / real (length vals))\<^sup>2)
                            / real (length vals)),
            stdDev = Fin (sqrt ((\<Sum>x\<leftarrow>vals. (x - sum_list vals / real (length vals))\<^sup>2)
                                / real (length vals)))\<rparr>"
proof -
  have n: "real (length vals) \<noteq> 0" using assms by simp
  have sq: "0 \<le> (\<Sum>x\<leftarrow>vals. (x - sum_list vals / real (length vals))\<^sup>2)"
    by (rule sum_list_nonneg) auto
  then have v: "0 \<le> (\<Sum>x\<leftarrow>vals. (x - sum_list vals / real (length vals))\<^sup>2) / real (length vals)"
    by simp
  show ?thesis
    unfolding calculateStatistics_def Let_def
    using n v foldl_squares [of "sum_list vals / real (length vals)" 0 vals]
    by (simp add: foldl_plus_sum_list)
qed

lemma square_le_sum_squares:
  "x \<in> set vals \<Longrightarrow> (x - m)\<^sup>2 \<le> (\<Sum>y\<leftarrow>vals. (y - (m::real))\<^sup>2)"
proof (induction vals)
  case Nil
  then show ?case by simp
next
  case (Cons a vals)
  have nn: "0 \<le> (\<Sum>y\<leftarrow>vals. (y - m)\<^sup>2)" by (rule sum_list_nonneg) auto
  show ?case
  proof (cases "x = a")
    case True
    then show ?thesis using nn by simp
  next
    case False
    with Cons have "(x - m)\<^sup>2 \<le> (\<Sum>y\<leftarrow>vals. (y - m)\<^sup>2)" by simp
    moreover have "0 \<le> (a - m)\<^sup>2" by simp
    ultimately have "(x - m)\<^sup>2 \<le> (a - m)\<^sup>2 + (\<Sum>y\<leftarrow>vals. (y - m)\<^sup>2)"
      by linarith
    then show ?thesis by simp
  qed
qed

lemma not_flagged_small:
  assumes "x \<in> set vals" and "length vals \<le> 4"
  shows "\<not> jsgreater
            (Math_abs (jsdivide (jsminus (Fin x) (mean (calculateStatistics vals)))
                         (stdDev (calculateStatistics vals))))
            (Fin 2)"
proof -
  define m where "m = sum_list vals / real (length vals)"
  define S where "S = (\<Sum>y\<leftarrow>vals. (y - m)\<^sup>2)"
  define V where "V = S / real (length vals)"
  have ne: "vals \<noteq> []" using assms(1) by auto
  then have n0: "0 < real (length vals)" by simp
  have st: "mean (calculateStatistics vals) = Fin m" "stdDev (calculateStatistics vals) = Fin (sqrt V)"
    using calculateStatistics_nonempty [OF ne] by (simp_all add: m_def S_def V_def)
  have S0: "0 \<le> S" unfolding S_def by (rule sum_list_nonneg) auto
  have le: "(x - m)\<^sup>2 \<le> S" unfolding S_def by (rule square_le_sum_squares [OF assms(1)])
  have V0: "0 \<le> V" using S0 n0 by (simp add: V_def)
  have SV: "S = real (length vals) * V" using n0 by (simp add: V_def)
  have "real (length vals) \<le> 4" using assms(2) by simp
  then have "S \<le> 4 * V" unfolding SV using V0 by (simp add: mult_right_mono)
  with le have d: "(x - m)\<^sup>2 \<le> 4 * V" by simp
  show ?thesis
  proof (cases "V = 0")
    case True
    with d have "(x - m)\<^sup>2 \<le> 0" by simp
    then have "x = m" by simp
    with True show ?thesis by (simp add: st jsminus_def jsgreater_def ofSign_def)
  next
    case False
    with V0 have Vp: "0 < V" by simp
    then have sp: "0 < sqrt V" by simp
    then have a: "\<bar>sqrt V\<bar> = sqrt V" by simp
    have "\<not> 2 < \<bar>x - m\<bar> / sqrt V" by (rule zscore_bound [OF Vp d])
    then show ?thesis using sp by (simp add: st jsminus_def jsgreater_def a)
  qed
qed

lemma categoryOutliers_small:
  assumes "length routes \<le> 4"
  shows "categoryOutliers cat routes = []"
proof -
  have "\<not> jsgreater
            (Math_abs (jsdivide (jsminus (Fin (categoryValue cat r))
                          (mean (calculateStatistics (map (categoryValue cat) routes))))
                         (stdDev (calculateStatistics (map (categoryValue cat) routes)))))
            (Fin 2)" if "r \<in> set routes" for r
    using that assms by (intro not_flagged_small) auto
  then show ?thesis by (simp add: categoryOutliers_def Let_def)
qed

lemma detectPriceOutliers_small:
  "length routes \<le> 4 \<Longrightarrow> detectPriceOutliers routes = \<lparr>warnings_d = [], outliers = []\<rparr>"
  by (simp add: detectPriceOutliers_def categoryOutliers_small categories_def)

text \<open>
  C2, as stated, fails: for the three routes with total costs 1000, 1050 and 5000 the
  detector flags no route at all.
\<close>

theorem outlier_5000_counterexample:
  "map (categoryValue ''totalCost'') [route1000, route1050, route5000] = [1000, 1050, 5000]
   \<and> outliers (detectPriceOutliers [route1000, route1050, route5000]) = []"
proof -
  have "map (categoryValue ''totalCost'') [route1000, route1050, route5000]
          = [1000, 1050, 5000]"
    by (simp add: categoryValue_def route1000_def route1050_def route5000_def)
  moreover have "outliers (detectPriceOutliers [route1000, route1050, route5000]) = []"
    by (simp add: detectPriceOutliers_small)
  ultimately show ?thesis by blast
qed

text \<open>
  C2, amended. For a plan of exactly 3 routes whose values in one cost category are
  1000, 1050 and 5000, the detector, which uses the population standard deviation,
  flags none of the three routes, in that category or any other: the z-score of the
  5000 route is \<open>2650 / sqrt (10535000 / 3)\<close>, below 3/2 and so not above the
  threshold 2.
\<close>

theorem three_routes_not_flagged:
  assumes "map (categoryValue cat) routes = [1000, 1050, 5000]"
  shows "categoryOutliers cat routes = []
         \<and> outliers (detectPriceOutliers routes) = []
         \<and> Math_abs (jsdivide
              (jsminus (Fin 5000) (mean (calculateStatistics (map (categoryValue cat) routes))))
              (stdDev (calculateStatistics (map (categoryValue cat) routes))))
            = Fin (2650 / sqrt (10535000 / 3))
         \<and> 2650 / sqrt (10535000 / 3) < (3 / 2 :: real)"
proof -
  have "length (map (categoryValue cat) routes) = 3" using assms by simp
  then have len: "length routes \<le> 4" by simp
  have a: "categoryOutliers cat routes = []"
    by (rule categoryOutliers_small [OF len])
  have b: "outliers (detectPriceOutliers routes) = []"
    by (simp add: detectPriceOutliers_small [OF len])
  have st: "calculateStatistics [1000, 1050, 5000]
              = \<lparr>mean = Fin 2350, variance = Fin (10535000 / 3),
                 stdDev = Fin (sqrt (10535000 / 3))\<rparr>"
    by (simp add: calculateStatistics_def jsminus_def)
  have c: "Math_abs (jsdivide
              (jsminus (Fin 5000) (mean (calculateStatistics (map (categoryValue cat) routes))))
              (stdDev (calculateStatistics (map (categoryValue cat) routes))))
            = Fin (2650 / sqrt (10535000 / 3))"
    unfolding assms st by (simp add: jsminus_def)
  have "sqrt ((5300 / 3)\<^sup>2) < sqrt (10535000 / 3 :: real)"
    by (rule real_sqrt_less_mono) (simp add: power2_eq_square)
  then have "5300 / 3 < sqrt (10535000 / 3 :: real)" by simp
  moreover have "0 < sqrt (10535000 / 3 :: real)" by simp
  ultimately have d: "2650 / sqrt (10535000 / 3) < (3 / 2 :: real)"
    by (simp add: pos_divide_less_eq)
  show ?thesis using a b c d by blast
qed

theorem three_routes_not_flagged_witness:
  "map (categoryValue ''totalCost'') [route1000, route1050, route5000] = [1000, 1050, 5000]
   \<and> categoryOutliers ''totalCost'' [route1000, route1050, route5000] = []
   \<and> outliers (detectPriceOutliers [route1000, route1050, route5000]) = []"
  using three_routes_not_flagged [of "''totalCost''" "[route1000, route1050, route5000]"]
  by (simp add: categoryValue_def route1000_def route1050_def route5000_def)

subsection \<open>Price validation report\<close>










lemma parisRequest_facts:
  "extractCountry (destination parisRequest) = ''France''"
  "PriceValidation_calculateDuration (startDate parisRequest) (endDate parisRequest) = 6"
  "travelers parisRequest = Some 1"
  "currency parisRequest = ''USD''"
  "budget parisRequest = 2000"
  "preferences parisRequest
     = Some \<lparr>travelStyle = Some ''mid-range'', interests = Some [''culture'', ''food'']\<rparr>"
proof -
  show "extractCountry (destination parisRequest) = ''France''"
    unfolding parisRequest_def by code_simp
qed (simp_all add: parisRequest_def PriceValidation_calculateDuration_def)

lemma france_midRange_bounds:
  "countryMultiplier ''France'' = 11 / 10"
  "getTravelStyleMultiplier ''mid-range'' = 1"
  "flights_international (adjustBoundariesForCountry (11 / 10) 1)
     = \<lparr>min_r = 220, max_r = 5500\<rparr>"
  "hotels_midRange (adjustBoundariesForCountry (11 / 10) 1) = \<lparr>min_r = 55, max_r = 330\<rparr>"
  by (simp_all add: countryMultiplier_def countryMultipliers_def getTravelStyleMultiplier_def
      adjustBoundariesForCountry_def priceBoundaries_def scaleRange_def)




text \<open>
  C3, as stated, fails. For a request in EUR whose conversion throws, the report has
  \<open>isValid = false\<close> and no warning, although the only route of the plan is valid
  against the unconverted budget 2000.
\<close>

theorem conversion_failure_counterexample:
  "isValid (PriceValidation_validateTravelPlan (Inl (Error ''Unable to convert EUR to USD''))
              [route1800] (parisRequest\<lparr>currency := ''EUR''\<rparr>)) = False
   \<and> warnings_v (PriceValidation_validateTravelPlan
                   (Inl (Error ''Unable to convert EUR to USD''))
                   [route1800] (parisRequest\<lparr>currency := ''EUR''\<rparr>)) = []
   \<and> isValid (validateRoute route1800 (budget parisRequest) 6 1 (11 / 10)
                (Some ''mid-range'')) = True"
proof -
  have r: "isValid (validateRoute route1800 2000 6 1 (11 / 10) (Some ''mid-range'')) = True"
    by (simp add: validateRoute_def route1800_def france_midRange_bounds
        validateFlightPrices_def validateHotelPrices_def validateActivityPrices_def
        jsgreater_def Let_def)
  show ?thesis
    using r
    by (simp add: PriceValidation_validateTravelPlan_def
        PriceValidation_validateTravelPlan_try_def parisRequest_facts)
qed

text \<open>
  C3, amended. If the currency-conversion collaborator throws (it is called only when
  the request currency is not USD), \<open>validateTravelPlan\<close> raises nothing and returns
  the fallback report: \<open>isValid\<close> false, the single error "Price validation system
  temporarily unavailable", no warning, no route validated, and the message of the
  conversion error under \<open>validationDetails.error\<close>.
\<close>

theorem conversion_failure_fallback:
  "currency request \<noteq> ''USD'' \<Longrightarrow>
   PriceValidation_validateTravelPlan (Inl e) planRoutes request =
     \<lparr>isValid = False,
      errors = [[Txt ''Price validation system temporarily unavailable'']],
      warnings_v = [],
      details = \<lparr>details_routes = Map.empty, details_budget = None,
                 details_outliers = None, details_error = Some (message e)\<rparr>\<rparr>"
  by (simp add: PriceValidation_validateTravelPlan_def
      PriceValidation_validateTravelPlan_try_def)

theorem conversion_failure_fallback_witness:
  "currency (parisRequest\<lparr>currency := ''EUR''\<rparr>) \<noteq> ''USD''
   \<and> PriceValidation_validateTravelPlan (Inl (Error ''Unable to convert EUR to USD''))
       [route1800] (parisRequest\<lparr>currency := ''EUR''\<rparr>) =
     \<lparr>isValid = False,
      errors = [[Txt ''Price validation system temporarily unavailable'']],
      warnings_v = [],
      details = \<lparr>details_routes = Map.empty, details_budget = None,
                 details_outliers = None,
                 details_error = Some ''Unable to convert EUR to USD''\<rparr>\<rparr>"
  using conversion_failure_fallback
    [of "parisRequest\<lparr>currency := ''EUR''\<rparr>" "Error ''Unable to convert EUR to USD''"
        "[route1800]"]
  by simp

subsection \<open>Destination verdict and orchestration\<close>


lemma pushRecommendation_fields [simp]:
  "isSafe (pushRecommendation r x) = isSafe x"
  "isAccessible (pushRecommendation r x) = isAccessible x"
  "warnings (pushRecommendation r x) = warnings x"
  "travelAdvisory (pushRecommendation r x) = travelAdvisory x"
  by (simp_all add: pushRecommendation_def)

lemma addTurkish_fields [simp]:
  "isSafe (addTurkishTravelerRecommendations x c) = isSafe x"
  "isAccessible (addTurkishTravelerRecommendations x c) = isAccessible x"
  "warnings (addTurkishTravelerRecommendations x c) = warnings x"
  "travelAdvisory (addTurkishTravelerRecommendations x c) = travelAdvisory x"
  by (simp_all add: addTurkishTravelerRecommendations_def Let_def)




lemma findOneAndUpdate_length: "length (findOneAndUpdate pid upd db) = length db"
  by (induction db) auto

lemma processTravelPlan_creates_record:
  "length (processTravelPlan pid request userId destInfo aiOutcome conversion db)
   = Suc (length db)"
  by (cases aiOutcome) (simp_all add: processTravelPlan_def Let_def findOneAndUpdate_length)







end
